theory Spec2Isabelle
  imports Main "HOL-Library.Sublist" "HOL-Library.Log_Nat" "HOL-Library.Monad_Syntax"
begin

section \<open>Texts, characters and the Python string operations used by the program\<close>

text \<open>
  A Python \<open>str\<close> is a sequence of code points. The model uses \<^typ>\<open>string\<close>, one
  \<^typ>\<open>char\<close> per code point, so it covers the texts whose code points are below 256.
  Files are modelled by the text that reading them with the run's encoding returns.
\<close>

abbreviation NL :: char where
  "NL \<equiv> CHR 0x0A"

datatype error = IOError | FileNotFoundError | IndexError | ValueError | ZeroDivisionError

text \<open>
  \<open>s.split(sep)\<close> for a non-empty separator: the pieces between the non-overlapping
  occurrences of \<open>sep\<close>, found from the left. The result is never empty.
\<close>

fun split_acc :: "string \<Rightarrow> string \<Rightarrow> string \<Rightarrow> string list" where
  "split_acc sep acc [] = [rev acc]"
| "split_acc sep acc (c # cs) =
     (if sep \<noteq> [] \<and> prefix sep (c # cs)
      then rev acc # split_acc sep [] (drop (length sep) (c # cs))
      else split_acc sep (c # acc) cs)"

definition str_split :: "string \<Rightarrow> string \<Rightarrow> string list" where
  "str_split s sep = split_acc sep [] s"

text \<open>\<open>s.replace(c, r)\<close> for a one-character pattern \<open>c\<close>.\<close>

definition str_replace :: "string \<Rightarrow> char \<Rightarrow> string \<Rightarrow> string" where
  "str_replace s c r = concat (map (\<lambda>x. if x = c then r else [x]) s)"

text \<open>
  The character classes of Python's \<open>re\<close> on \<open>str\<close> patterns, restricted to the code
  points below 256: \<open>\w\<close> (alphanumeric or underscore), \<open>\s\<close> and \<open>\d\<close>.
\<close>

definition is_digit :: "char \<Rightarrow> bool" where
  "is_digit c = (let n = (of_char c :: nat) in 48 \<le> n \<and> n \<le> 57)"

definition is_ascii_alpha :: "char \<Rightarrow> bool" where
  "is_ascii_alpha c = (let n = (of_char c :: nat) in (65 \<le> n \<and> n \<le> 90) \<or> (97 \<le> n \<and> n \<le> 122))"

definition is_word :: "char \<Rightarrow> bool" where
  "is_word c =
     (let n = (of_char c :: nat)
      in (48 \<le> n \<and> n \<le> 57) \<or> (65 \<le> n \<and> n \<le> 90) \<or> n = 95 \<or> (97 \<le> n \<and> n \<le> 122)
         \<or> n = 170 \<or> n = 178 \<or> n = 179 \<or> n = 181 \<or> n = 185 \<or> n = 186
         \<or> (188 \<le> n \<and> n \<le> 190) \<or> (192 \<le> n \<and> n \<le> 214) \<or> (216 \<le> n \<and> n \<le> 246)
         \<or> 248 \<le> n)"

definition is_space :: "char \<Rightarrow> bool" where
  "is_space c =
     (let n = (of_char c :: nat)
      in (9 \<le> n \<and> n \<le> 13) \<or> (28 \<le> n \<and> n \<le> 32) \<or> n = 133 \<or> n = 160)"

section \<open>The title sanitizer: \<open>remove_chars\<close>\<close>

text \<open>
  \<open>re.sub(" *: *", " - ", s)\<close>: at each position the pattern takes the run of spaces
  there, then needs a colon, then takes the spaces after it.
\<close>

function sub_colon :: "string \<Rightarrow> string" where
  "sub_colon [] = []"
| "sub_colon (c # cs) =
     (case dropWhile (\<lambda>x. x = CHR '' '') (c # cs) of
        [] \<Rightarrow> c # sub_colon cs
      | d # r \<Rightarrow>
          if d = CHR '':'' then '' - '' @ sub_colon (dropWhile (\<lambda>x. x = CHR '' '') r)
          else c # sub_colon cs)"
  by pat_completeness auto
termination
proof (relation "measure length")
  fix c :: char and cs d r
  assume h: "dropWhile (\<lambda>x. x = CHR '' '') (c # cs) = d # r"
  have "length (d # r) \<le> length (c # cs)"
    using length_dropWhile_le [of "\<lambda>x. x = CHR '' ''" "c # cs"] h by simp
  moreover have "length (dropWhile (\<lambda>x. x = CHR '' '') r) \<le> length r"
    by (rule length_dropWhile_le)
  ultimately show "(dropWhile (\<lambda>x. x = CHR '' '') r, c # cs) \<in> measure length"
    by simp
qed simp_all

text \<open>
  \<open>re.sub(r"\((.+?)\)", r"- \1", s)\<close>. After an opening parenthesis the lazy group
  \<open>.+?\<close> takes one character that is not a newline and then as few more as possible up to
  the next closing parenthesis; \<open>find_close\<close> returns the group and the text after the
  closing parenthesis. \<open>re.sub\<close> replaces every non-overlapping match, left to right.
\<close>

fun find_close :: "string \<Rightarrow> string \<Rightarrow> (string \<times> string) option" where
  "find_close acc [] = None"
| "find_close acc (c # cs) =
     (if c = CHR '')'' then Some (rev acc, cs)
      else if c = NL then None
      else find_close (c # acc) cs)"

definition paren_group :: "string \<Rightarrow> (string \<times> string) option" where
  "paren_group s =
     (case s of
        [] \<Rightarrow> None
      | c # cs \<Rightarrow> if c = NL then None else find_close [c] cs)"

lemma find_close_length: "find_close acc s = Some (g, r) \<Longrightarrow> length r < length s"
  by (induction s arbitrary: acc) (auto split: if_splits intro: less_SucI)

lemma paren_group_length: "paren_group s = Some (g, r) \<Longrightarrow> length r < length s"
  by (auto simp: paren_group_def split: list.splits if_splits dest: find_close_length)

function sub_paren :: "string \<Rightarrow> string" where
  "sub_paren [] = []"
| "sub_paren (c # cs) =
     (if c = CHR ''(''
      then (case paren_group cs of
              None \<Rightarrow> c # sub_paren cs
            | Some (g, r) \<Rightarrow> ''- '' @ g @ sub_paren r)
      else c # sub_paren cs)"
  by pat_completeness auto
termination
  by (relation "measure length") (auto dest: paren_group_length)

text \<open>
  The character class \<open>[^a-zA-Z\d\s\w;,_-]\<close> deletes every character that is not one of
  those listed; \<open>^\W+|\W+$\<close> deletes the non-word characters at both ends.
\<close>

definition allowed :: "char \<Rightarrow> bool" where
  "allowed c =
     (is_ascii_alpha c \<or> is_digit c \<or> is_space c \<or> is_word c
      \<or> c = CHR '';'' \<or> c = CHR '','' \<or> c = CHR ''_'' \<or> c = CHR ''-'')"

definition trim_nonword :: "string \<Rightarrow> string" where
  "trim_nonword s =
     rev (dropWhile (\<lambda>c. \<not> is_word c) (rev (dropWhile (\<lambda>c. \<not> is_word c) s)))"

text \<open>The slice \<open>s[:n]\<close>; a negative \<open>n\<close> counts from the end.\<close>

definition slice_to :: "string \<Rightarrow> int \<Rightarrow> string" where
  "slice_to s n = (if 0 \<le> n then take (nat n) s else take (length s - nat (- n)) s)"

definition remove_chars :: "string \<Rightarrow> string \<Rightarrow> string" where
  "remove_chars s output_directory =
     (let s1 = sub_colon s;
          s2 = str_replace (str_replace s1 (CHR ''?'') []) (CHR ''&'') ''and'';
          s3 = sub_paren s2;
          s4 = filter allowed s3;
          s5 = trim_nonword s4;
          max_length = 245 - int (length output_directory)
      in slice_to s5 max_length)"

section \<open>The file system and \<open>parse_clippings\<close>\<close>

text \<open>
  The file system as \<open>parse_clippings\<close> sees it: the text of the source file when
  \<open>source_file\<close> is an existing file, and the entries of \<open>output_directory\<close> (file name
  to text) when that directory exists. The source file is taken to lie outside the output
  directory and every entry of the output directory to be a regular file.
\<close>

type_synonym directory = "string \<rightharpoonup> string"

record filesystem =
  source :: "string option"
  dest :: "directory option"

text \<open>\<open>os.path.join\<close> with the separator \<open>/\<close>.\<close>

definition path_join :: "string \<Rightarrow> string \<Rightarrow> string" where
  "path_join a b =
     (if prefix ''/'' b then b
      else if a = [] \<or> suffix ''/'' a then a @ b
      else a @ ''/'' @ b)"

text \<open>What one clipping adds to its book file.\<close>

definition entry :: "bool \<Rightarrow> string \<Rightarrow> string \<Rightarrow> string" where
  "entry include_clip_meta clipping_text clip_meta =
     clipping_text @ [NL] @ (if include_clip_meta then clip_meta @ [NL] else [])
       @ [NL] @ ''...'' @ [NL, NL]"

text \<open>
  One iteration of the loop over the chunks. The state is the set \<open>output_files\<close> and the
  output directory. \<open>lines[3]\<close> and \<open>title[0]\<close> raise IndexError out of range, and
  reading a file that does not exist raises FileNotFoundError; an iteration that raises has
  changed nothing. The byte-order mark U+FEFF is not a code point below 256, so the
  comparison of \<open>title[0]\<close> with it is never true in the model.
\<close>

definition process_highlight ::
  "string \<Rightarrow> bool \<Rightarrow> string \<Rightarrow> string set \<times> directory \<Rightarrow> error + string set \<times> directory" where
  "process_highlight output_directory include_clip_meta highlight st =
     (let lines = tl (str_split highlight [NL]);
          output_files = fst st;
          d = snd st
      in if length lines < 3 then Inr st
         else if length lines < 4 then Inl IndexError
         else if lines ! 3 = [] then Inr st
         else
           let title = lines ! 0
           in if title = [] then Inl IndexError
              else
                let outfile_name = remove_chars title output_directory @ ''.txt'';
                    path = path_join output_directory outfile_name;
                    clipping_text = lines ! 3;
                    clip_meta = lines ! 1
                in if outfile_name \<notin> output_files \<and> d outfile_name = None
                   then Inr (insert path output_files,
                             d(outfile_name \<mapsto>
                                 (if sublist clipping_text []
                                  then []
                                  else entry include_clip_meta clipping_text clip_meta)))
                   else
                     (case d outfile_name of
                        None \<Rightarrow> Inl FileNotFoundError
                      | Some current_text \<Rightarrow>
                          Inr (output_files,
                               if sublist clipping_text current_text then d
                               else d(outfile_name \<mapsto>
                                        current_text
                                          @ entry include_clip_meta clipping_text clip_meta))))"

text \<open>
  The loop: an exception leaves it at once, with the directory as the earlier iterations
  left it.
\<close>

fun process_all ::
  "string \<Rightarrow> bool \<Rightarrow> string list \<Rightarrow> string set \<times> directory
     \<Rightarrow> error option \<times> string set \<times> directory" where
  "process_all output_directory include_clip_meta [] st = (None, st)"
| "process_all output_directory include_clip_meta (h # hs) st =
     (case process_highlight output_directory include_clip_meta h st of
        Inl e \<Rightarrow> (Some e, st)
      | Inr st' \<Rightarrow> process_all output_directory include_clip_meta hs st')"

text \<open>
  \<open>parse_clippings(source_file, output_directory, encoding, include_clip_meta)\<close>. The
  result is the raised exception or the returned set, together with the file system
  afterwards. \<open>os.path.exists("")\<close> is false and \<open>os.makedirs("")\<close> raises
  FileNotFoundError.
\<close>

definition run_chunks ::
  "string \<Rightarrow> bool \<Rightarrow> string \<Rightarrow> directory \<Rightarrow> filesystem \<Rightarrow> (error + string set) \<times> filesystem" where
  "run_chunks output_directory include_clip_meta text d fs =
     (case process_all output_directory include_clip_meta (str_split text ''=========='') ({}, d) of
        (None, output_files, d') \<Rightarrow> (Inr output_files, fs\<lparr>dest := Some d'\<rparr>)
      | (Some e, output_files, d') \<Rightarrow> (Inl e, fs\<lparr>dest := Some d'\<rparr>))"

definition parse_clippings ::
  "string \<Rightarrow> bool \<Rightarrow> filesystem \<Rightarrow> (error + string set) \<times> filesystem" where
  "parse_clippings output_directory include_clip_meta fs =
     (case source fs of
        None \<Rightarrow> (Inl IOError, fs)
      | Some text \<Rightarrow>
          (case (if output_directory = [] then None else dest fs) of
             Some d \<Rightarrow> run_chunks output_directory include_clip_meta text d fs
           | None \<Rightarrow>
               if output_directory = [] then (Inl FileNotFoundError, fs)
               else run_chunks output_directory include_clip_meta text Map.empty fs))"

text \<open>
  Book files only grow: \<open>grown d d'\<close> says that every file of \<open>d\<close> is still in \<open>d'\<close>
  and its old text is the beginning of its new text.
\<close>

definition grown :: "directory \<Rightarrow> directory \<Rightarrow> bool" where
  "grown d d' = (\<forall>n c. d n = Some c \<longrightarrow> (\<exists>x. d' n = Some (c @ x)))"

section \<open>Dates: \<open>datetime.strptime\<close> and \<open>extract_date_and_time\<close>\<close>

record datetime =
  year :: nat
  month :: nat
  day :: nat
  hour :: nat
  minute :: nat
  second :: nat

definition digit_val :: "char \<Rightarrow> nat" where
  "digit_val c = of_char c - 48"

definition in_range :: "char \<Rightarrow> char \<Rightarrow> char \<Rightarrow> bool" where
  "in_range lo hi c = ((of_char lo :: nat) \<le> of_char c \<and> (of_char c :: nat) \<le> of_char hi)"

text \<open>
  \<open>strptime\<close> turns the format \<open>%d %B %Y %H:%M:%S\<close> into a regular expression, each
  directive a group of alternatives tried in order and each blank \<open>\s+\<close>. After every
  numeric group but the last comes something that is not a digit, so the first alternative
  that matches is the only one that can lead to a match; each function below returns the
  value of the group and the rest of the text.

  \<open>%d\<close> is \<open>3[0-1]|[1-2]\d|0[1-9]|[1-9]| [1-9]\<close>.
\<close>

fun parse_d :: "string \<Rightarrow> (nat \<times> string) option" where
  "parse_d (a # b # r) =
     (if a = CHR ''3'' \<and> in_range CHR ''0'' CHR ''1'' b then Some (30 + digit_val b, r)
      else if in_range CHR ''1'' CHR ''2'' a \<and> is_digit b then Some (10 * digit_val a + digit_val b, r)
      else if a = CHR ''0'' \<and> in_range CHR ''1'' CHR ''9'' b then Some (digit_val b, r)
      else if in_range CHR ''1'' CHR ''9'' a then Some (digit_val a, b # r)
      else if a = CHR '' '' \<and> in_range CHR ''1'' CHR ''9'' b then Some (digit_val b, r)
      else None)"
| "parse_d [a] = (if in_range CHR ''1'' CHR ''9'' a then Some (digit_val a, []) else None)"
| "parse_d [] = None"

text \<open>\<open>\s+\<close>: at least one white-space character, then all that follow.\<close>

definition parse_ws :: "string \<Rightarrow> string option" where
  "parse_ws s =
     (case s of
        [] \<Rightarrow> None
      | c # cs \<Rightarrow> if is_space c then Some (dropWhile is_space cs) else None)"

text \<open>
  \<open>%B\<close>: the month names of the C locale, longest first, matched without regard to
  case. No name is the beginning of another.
\<close>

definition month_names :: "(string \<times> nat) list" where
  "month_names =
     [(''september'', 9), (''february'', 2), (''november'', 11), (''december'', 12),
      (''january'', 1), (''october'', 10), (''august'', 8), (''march'', 3), (''april'', 4),
      (''june'', 6), (''july'', 7), (''may'', 5)]"

definition lower :: "char \<Rightarrow> char" where
  "lower c =
     (case map_of (zip ''ABCDEFGHIJKLMNOPQRSTUVWXYZ'' ''abcdefghijklmnopqrstuvwxyz'') c of
        None \<Rightarrow> c
      | Some l \<Rightarrow> l)"

fun parse_B_from :: "(string \<times> nat) list \<Rightarrow> string \<Rightarrow> (nat \<times> string) option" where
  "parse_B_from [] s = None"
| "parse_B_from ((name, m) # rest) s =
     (if prefix name (map lower s) then Some (m, drop (length name) s)
      else parse_B_from rest s)"

definition parse_B :: "string \<Rightarrow> (nat \<times> string) option" where
  "parse_B s = parse_B_from month_names s"

text \<open>\<open>%Y\<close> is \<open>\d\d\d\d\<close>.\<close>

fun parse_Y :: "string \<Rightarrow> (nat \<times> string) option" where
  "parse_Y (a # b # c # d # r) =
     (if is_digit a \<and> is_digit b \<and> is_digit c \<and> is_digit d
      then Some (1000 * digit_val a + 100 * digit_val b + 10 * digit_val c + digit_val d, r)
      else None)"
| "parse_Y s = None"

text \<open>\<open>%H\<close> is \<open>2[0-3]|[0-1]\d|\d\<close>, \<open>%M\<close> is \<open>[0-5]\d|\d\<close>, \<open>%S\<close> is \<open>6[0-1]|[0-5]\d|\d\<close>.\<close>

fun parse_H :: "string \<Rightarrow> (nat \<times> string) option" where
  "parse_H (a # b # r) =
     (if a = CHR ''2'' \<and> in_range CHR ''0'' CHR ''3'' b then Some (20 + digit_val b, r)
      else if in_range CHR ''0'' CHR ''1'' a \<and> is_digit b then Some (10 * digit_val a + digit_val b, r)
      else if is_digit a then Some (digit_val a, b # r)
      else None)"
| "parse_H [a] = (if is_digit a then Some (digit_val a, []) else None)"
| "parse_H [] = None"

fun parse_M :: "string \<Rightarrow> (nat \<times> string) option" where
  "parse_M (a # b # r) =
     (if in_range CHR ''0'' CHR ''5'' a \<and> is_digit b then Some (10 * digit_val a + digit_val b, r)
      else if is_digit a then Some (digit_val a, b # r)
      else None)"
| "parse_M [a] = (if is_digit a then Some (digit_val a, []) else None)"
| "parse_M [] = None"

fun parse_S :: "string \<Rightarrow> (nat \<times> string) option" where
  "parse_S (a # b # r) =
     (if a = CHR ''6'' \<and> in_range CHR ''0'' CHR ''1'' b then Some (60 + digit_val b, r)
      else if in_range CHR ''0'' CHR ''5'' a \<and> is_digit b then Some (10 * digit_val a + digit_val b, r)
      else if is_digit a then Some (digit_val a, b # r)
      else None)"
| "parse_S [a] = (if is_digit a then Some (digit_val a, []) else None)"
| "parse_S [] = None"

definition parse_colon :: "string \<Rightarrow> string option" where
  "parse_colon s = (case s of [] \<Rightarrow> None | c # cs \<Rightarrow> if c = CHR '':'' then Some cs else None)"

definition is_leap :: "nat \<Rightarrow> bool" where
  "is_leap y = (y mod 4 = 0 \<and> (y mod 100 \<noteq> 0 \<or> y mod 400 = 0))"

definition days_in_month :: "nat \<Rightarrow> nat \<Rightarrow> nat" where
  "days_in_month y m =
     (if m = 2 then (if is_leap y then 29 else 28)
      else if m = 4 \<or> m = 6 \<or> m = 9 \<or> m = 11 then 30 else 31)"

text \<open>
  The match of the whole expression, as an option. \<open>strptime\<close> raises ValueError when the
  text does not match, when text remains after the match, and when the fields are not a
  date and time of day (year 0000, 31 February, second 60).
\<close>

definition match_format :: "string \<Rightarrow> (datetime \<times> string) option" where
  "match_format s =
     do {
       (d, s1) \<leftarrow> parse_d s;
       s2 \<leftarrow> parse_ws s1;
       (m, s3) \<leftarrow> parse_B s2;
       s4 \<leftarrow> parse_ws s3;
       (y, s5) \<leftarrow> parse_Y s4;
       s6 \<leftarrow> parse_ws s5;
       (h, s7) \<leftarrow> parse_H s6;
       s8 \<leftarrow> parse_colon s7;
       (mi, s9) \<leftarrow> parse_M s8;
       s10 \<leftarrow> parse_colon s9;
       (sec, s11) \<leftarrow> parse_S s10;
       Some (\<lparr>year = y, month = m, day = d, hour = h, minute = mi, second = sec\<rparr>, s11)
     }"

definition strptime :: "string \<Rightarrow> error + datetime" where
  "strptime s =
     (case match_format s of
        None \<Rightarrow> Inl ValueError
      | Some (dt, rest) \<Rightarrow>
          if rest \<noteq> [] then Inl ValueError
          else if year dt = 0 \<or> days_in_month (year dt) (month dt) < day dt \<or> 59 < second dt
          then Inl ValueError
          else Inr dt)"

text \<open>
  \<open>extract_date_and_time\<close>: \<open>string.split("Added on ")[1]\<close> raises IndexError when the
  separator does not occur, and unpacking the second split into two names raises
  ValueError unless it has exactly two pieces.
\<close>

definition extract_date_and_time :: "string \<Rightarrow> error + datetime" where
  "extract_date_and_time string =
     (let parts = str_split string ''Added on ''
      in if length parts < 2 then Inl IndexError
         else
           let date_and_time_str = parts ! 1;
               pieces = str_split date_and_time_str '', ''
           in if length pieces \<noteq> 2 then Inl ValueError
              else strptime (pieces ! 1))"

section \<open>Similarity and the filter of repeated highlights\<close>

text \<open>
  \<open>Levenshtein.distance\<close> of the library of that name: the least number of insertions,
  deletions and substitutions of single characters that turn one text into the other.
\<close>

fun levenshtein :: "string \<Rightarrow> string \<Rightarrow> nat" where
  "levenshtein [] ys = length ys"
| "levenshtein (x # xs) [] = length (x # xs)"
| "levenshtein (x # xs) (y # ys) =
     (if x = y then levenshtein xs ys
      else 1 + min (levenshtein xs (y # ys)) (min (levenshtein (x # xs) ys) (levenshtein xs ys)))"

text \<open>
  Python's \<open>float\<close> is the IEEE 754 double: 53 significant bits, and the result of a
  division or subtraction is the exact result rounded to the nearest double, to the one
  with an even last bit in a tie. A double is modelled by the rational it stands for;
  \<open>round_double\<close> rounds a rational so (overflow and subnormal numbers, which lengths
  of texts do not reach, are left out).
\<close>

definition pow2 :: "int \<Rightarrow> rat" where
  "pow2 e = (if 0 \<le> e then 2 ^ nat e else 1 / 2 ^ nat (- e))"

definition round_even :: "rat \<Rightarrow> int" where
  "round_even q =
     (let f = \<lfloor>q\<rfloor>; r = q - of_int f
      in if r < 1 / 2 then f
         else if 1 / 2 < r then f + 1
         else if even f then f else f + 1)"

text \<open>The exponent \<open>e\<close> with \<open>2 ^ e \<le> q < 2 ^ (e + 1)\<close>, for a positive \<open>q\<close>.\<close>

definition binade :: "rat \<Rightarrow> int" where
  "binade q =
     (let (a, b) = quotient_of q;
          e = bitlen a - bitlen b
      in if pow2 e \<le> q then e else e - 1)"

definition round_double :: "rat \<Rightarrow> rat" where
  "round_double q =
     (if q = 0 then 0
      else
        let a = \<bar>q\<bar>;
            u = pow2 (binade a - 52)
        in sgn q * of_int (round_even (a / u)) * u)"

text \<open>
  \<open>calculate_similarity\<close>: an absent text is \<open>None\<close>; the division raises
  ZeroDivisionError when both texts are empty.
\<close>

definition calculate_similarity :: "string option \<Rightarrow> string option \<Rightarrow> error + rat" where
  "calculate_similarity string1 string2 =
     (case string1 of
        None \<Rightarrow> Inr 0
      | Some s1 \<Rightarrow>
          (case string2 of
             None \<Rightarrow> Inr 0
           | Some s2 \<Rightarrow>
               let distance = levenshtein s1 s2;
                   longest = max (length s1) (length s2)
               in if longest = 0 then Inl ZeroDivisionError
                  else Inr (round_double (1 - round_double (of_nat distance / of_nat longest)))))"

text \<open>The seconds from the beginning of year 1 to a date and time, for differences.\<close>

definition days_before_year :: "nat \<Rightarrow> int" where
  "days_before_year y =
     (let p = int y - 1 in 365 * p + p div 4 - p div 100 + p div 400)"

definition days_before_month :: "nat \<Rightarrow> nat \<Rightarrow> int" where
  "days_before_month y m = int (sum_list (map (days_in_month y) [1..<m]))"

definition to_seconds :: "datetime \<Rightarrow> int" where
  "to_seconds dt =
     (((days_before_year (year dt) + days_before_month (year dt) (month dt) + int (day dt)) * 24
         + int (hour dt)) * 60 + int (minute dt)) * 60 + int (second dt)"

text \<open>
  The table of highlights, a list of rows. A column shifted by \<open>-1\<close> has in each row the
  value of the next row and a missing value in the last row: \<open>None\<close> for a text, the
  missing time for a date, and a difference with the missing time is missing and not below
  any bound. \<open>apply\<close> raises what its function raises at the first row that does. On a
  table without rows \<open>apply\<close> returns a table, not a column, and assigning it to the one
  column \<open>correlaton\<close> raises ValueError (pandas 2).
\<close>

record row =
  highlight :: string
  meta :: string
  date :: datetime

definition shift_up :: "'a list \<Rightarrow> 'a option list" where
  "shift_up xs = (case xs of [] \<Rightarrow> [] | x # rest \<Rightarrow> map Some rest @ [None])"

fun apply_rows :: "(error + 'a) list \<Rightarrow> error + 'a list" where
  "apply_rows [] = Inr []"
| "apply_rows (Inl e # rs) = Inl e"
| "apply_rows (Inr x # rs) = (case apply_rows rs of Inl e \<Rightarrow> Inl e | Inr xs \<Rightarrow> Inr (x # xs))"

definition filter_repeated_highlights :: "row list \<Rightarrow> error + row list" where
  "filter_repeated_highlights df_highlights =
     (if df_highlights = [] then Inl ValueError
      else
      let next_highlight = shift_up (map highlight df_highlights)
      in case apply_rows (map2 (\<lambda>h n. calculate_similarity (Some h) n)
                                (map highlight df_highlights) next_highlight) of
           Inl e \<Rightarrow> Inl e
         | Inr correlaton \<Rightarrow>
             let time_diff = map2 (\<lambda>n d. map_option (\<lambda>t. to_seconds t - to_seconds d) n)
                               (shift_up (map date df_highlights)) (map date df_highlights);
                 correlaton_greater = map (\<lambda>c. round_double (3 / 10) < c) correlaton;
                 time_diff_greater = map (\<lambda>t. case t of None \<Rightarrow> False | Some s \<Rightarrow> s < 60) time_diff;
                 to_remove = map2 (\<lambda>a b. a \<and> b) correlaton_greater time_diff_greater
             in Inr (map fst (filter (\<lambda>(r, b). \<not> b) (zip df_highlights to_remove))))"

text \<open>
  \<open>re.search(r"(Your.*\| Added on)", line)\<close>: somewhere \<open>Your\<close>, later on the same line
  \<open>| Added on\<close>.
\<close>

fun added_on_follows :: "string \<Rightarrow> bool" where
  "added_on_follows [] = False"
| "added_on_follows (c # cs) =
     (prefix ''| Added on'' (c # cs) \<or> (c \<noteq> NL \<and> added_on_follows cs))"

fun meta_search :: "string \<Rightarrow> bool" where
  "meta_search [] = False"
| "meta_search (c # cs) =
     ((prefix ''Your'' (c # cs) \<and> added_on_follows (drop 4 (c # cs))) \<or> meta_search cs)"



text \<open>
  The filter in the words of its description: the similarity of two texts, when a row is
  redundant beside the next one, and one pass over the adjacent pairs.
\<close>

definition similarity :: "string \<Rightarrow> string \<Rightarrow> rat" where
  "similarity a b =
     round_double (1 - round_double (of_nat (levenshtein a b) / of_nat (max (length a) (length b))))"

definition redundant :: "row \<Rightarrow> row \<Rightarrow> bool" where
  "redundant r n =
     (round_double (3 / 10) < similarity (highlight r) (highlight n)
      \<and> to_seconds (date n) - to_seconds (date r) < 60)"

fun adjacent_pass :: "row list \<Rightarrow> row list" where
  "adjacent_pass [] = []"
| "adjacent_pass [r] = [r]"
| "adjacent_pass (r # n # rest) =
     (if redundant r n then adjacent_pass (n # rest) else r # adjacent_pass (n # rest))"

section \<open>A run on a small source\<close>



definition book_b_text :: string where
  "book_b_text =
     ''one\<newline>- Your Highlight | Added on Friday, 5 March 2021 16:00:00\<newline>\<newline>...\<newline>\<newline>''"



text \<open>The lines of a book file that are clipping texts: not empty, not the separator, not metadata.\<close>

definition body_lines :: "string \<Rightarrow> string list" where
  "body_lines content =
     filter (\<lambda>l. l \<noteq> ''...'' \<and> l \<noteq> [] \<and> \<not> meta_search l) (str_split content [NL])"

section \<open>Evaluation and general facts\<close>

lemmas date_simps = extract_date_and_time_def strptime_def match_format_def parse_ws_def
  parse_B_def month_names_def lower_def parse_colon_def is_leap_def days_in_month_def
  digit_val_def in_range_def is_digit_def is_space_def str_split_def

lemmas eval_simps = process_highlight_def str_split_def remove_chars_def str_replace_def
  paren_group_def allowed_def trim_nonword_def slice_to_def is_word_def is_space_def
  is_digit_def is_ascii_alpha_def entry_def sublist_code path_join_def suffix_def

lemma process_highlight_clipping:
  assumes "tl (str_split chunk [NL]) = lines" "4 \<le> length lines" "lines ! 3 \<noteq> []"
    "lines ! 0 \<noteq> []"
  shows "process_highlight output_directory include_clip_meta chunk (output_files, d) =
     (let outfile_name = remove_chars (lines ! 0) output_directory @ ''.txt''
      in if outfile_name \<notin> output_files \<and> d outfile_name = None
         then Inr (insert (path_join output_directory outfile_name) output_files,
                   d(outfile_name \<mapsto> entry include_clip_meta (lines ! 3) (lines ! 1)))
         else (case d outfile_name of
                 None \<Rightarrow> Inl FileNotFoundError
               | Some current_text \<Rightarrow>
                   Inr (output_files,
                        if sublist (lines ! 3) current_text then d
                        else d(outfile_name \<mapsto>
                                 current_text @ entry include_clip_meta (lines ! 3) (lines ! 1)))))"
  using assms by (auto simp: process_highlight_def Let_def split: option.splits)

lemma find_close_append:
  "CHR '')'' \<notin> set x \<Longrightarrow> NL \<notin> set x \<Longrightarrow> find_close acc (x @ CHR '')'' # r) = Some (rev acc @ x, r)"
  by (induction x arbitrary: acc) auto

lemma paren_group_append:
  "x \<noteq> [] \<Longrightarrow> CHR '')'' \<notin> set x \<Longrightarrow> NL \<notin> set x \<Longrightarrow> paren_group (x @ CHR '')'' # r) = Some (x, r)"
proof (cases x)
  case Nil
  assume "x \<noteq> []"
  with Nil show ?thesis by simp
next
  case (Cons c cs)
  assume "CHR '')'' \<notin> set x" "NL \<notin> set x"
  with Cons show ?thesis
    using find_close_append [of cs "[c]" r] by (auto simp: paren_group_def)
qed

lemma sub_paren_plain_prefix: "CHR ''('' \<notin> set a \<Longrightarrow> sub_paren (a @ s) = a @ sub_paren s"
  by (induction a) auto

lemma sub_paren_group:
  assumes "CHR ''('' \<notin> set a" "x \<noteq> []" "CHR '')'' \<notin> set x" "NL \<notin> set x"
  shows "sub_paren (a @ CHR ''('' # x @ CHR '')'' # r) = a @ ''- '' @ x @ sub_paren r"
  using assms by (simp add: sub_paren_plain_prefix paren_group_append)

lemma set_slice_to: "set (slice_to s n) \<subseteq> set s"
  by (auto simp: slice_to_def dest: in_set_takeD)

lemma set_trim_nonword: "set (trim_nonword s) \<subseteq> set s"
  by (auto simp: trim_nonword_def dest!: set_dropWhileD)

lemma not_allowed_slash: "\<not> allowed (CHR ''/'')"
  by (simp add: allowed_def is_word_def is_space_def is_digit_def is_ascii_alpha_def)

lemma remove_chars_allowed: "c \<in> set (remove_chars s output_directory) \<Longrightarrow> allowed c"
proof -
  assume "c \<in> set (remove_chars s output_directory)"
  then have "c \<in> set (trim_nonword (filter allowed (sub_paren
      (str_replace (str_replace (sub_colon s) (CHR ''?'') []) (CHR ''&'') ''and''))))"
    using set_slice_to by (fastforce simp: remove_chars_def Let_def)
  then show "allowed c"
    using set_trim_nonword by fastforce
qed

lemma outfile_name_no_slash: "CHR ''/'' \<notin> set (remove_chars s output_directory @ ''.txt'')"
  using remove_chars_allowed [of "CHR ''/''" s output_directory] not_allowed_slash by auto

lemma path_join_has_slash: "a \<noteq> [] \<Longrightarrow> CHR ''/'' \<in> set (path_join a b)"
  by (auto simp: path_join_def prefix_def suffix_def)

text \<open>What an iteration can do, whatever the chunk.\<close>

lemma process_highlight_cases:
  obtains
    (skip) "\<forall>st. process_highlight output_directory include_clip_meta chunk st = Inr st"
  | (raise) "\<forall>st. process_highlight output_directory include_clip_meta chunk st = Inl IndexError"
  | (clip) name body info where
      "CHR ''/'' \<notin> set name" "body \<noteq> []"
      "\<forall>output_files d. process_highlight output_directory include_clip_meta chunk (output_files, d) =
        (if name \<notin> output_files \<and> d name = None
         then Inr (insert (path_join output_directory name) output_files,
                   d(name \<mapsto> entry include_clip_meta body info))
         else (case d name of
                 None \<Rightarrow> Inl FileNotFoundError
               | Some current_text \<Rightarrow>
                   Inr (output_files,
                        if sublist body current_text then d
                        else d(name \<mapsto> current_text @ entry include_clip_meta body info))))"
proof -
  define lines where "lines = tl (str_split chunk [NL])"
  consider "length lines < 3" | "length lines = 3" | "4 \<le> length lines" "lines ! 3 = []"
    | "4 \<le> length lines" "lines ! 3 \<noteq> []" "lines ! 0 = []"
    | "4 \<le> length lines" "lines ! 3 \<noteq> []" "lines ! 0 \<noteq> []"
    by linarith
  then show thesis
  proof cases
    case 1
    then have "\<forall>st. process_highlight output_directory include_clip_meta chunk st = Inr st"
      by (simp add: process_highlight_def lines_def)
    then show thesis by (rule skip)
  next
    case 2
    then have "\<forall>st. process_highlight output_directory include_clip_meta chunk st = Inl IndexError"
      by (simp add: process_highlight_def lines_def)
    then show thesis by (rule raise)
  next
    case 3
    then have "\<forall>st. process_highlight output_directory include_clip_meta chunk st = Inr st"
      by (simp add: process_highlight_def lines_def)
    then show thesis by (rule skip)
  next
    case 4
    then have "\<forall>st. process_highlight output_directory include_clip_meta chunk st = Inl IndexError"
      by (simp add: process_highlight_def lines_def)
    then show thesis by (rule raise)
  next
    case 5
    show thesis
    proof (rule clip [of "remove_chars (lines ! 0) output_directory @ ''.txt''" "lines ! 3" "lines ! 1"])
      show "CHR ''/'' \<notin> set (remove_chars (lines ! 0) output_directory @ ''.txt'')"
        by (rule outfile_name_no_slash)
      show "lines ! 3 \<noteq> []" by (rule 5)
      show "\<forall>output_files d. process_highlight output_directory include_clip_meta chunk (output_files, d) =
        (if remove_chars (lines ! 0) output_directory @ ''.txt'' \<notin> output_files
            \<and> d (remove_chars (lines ! 0) output_directory @ ''.txt'') = None
         then Inr (insert (path_join output_directory (remove_chars (lines ! 0) output_directory @ ''.txt'')) output_files,
                   d(remove_chars (lines ! 0) output_directory @ ''.txt'' \<mapsto> entry include_clip_meta (lines ! 3) (lines ! 1)))
         else (case d (remove_chars (lines ! 0) output_directory @ ''.txt'') of
                 None \<Rightarrow> Inl FileNotFoundError
               | Some current_text \<Rightarrow>
                   Inr (output_files,
                        if sublist (lines ! 3) current_text then d
                        else d(remove_chars (lines ! 0) output_directory @ ''.txt'' \<mapsto> current_text @ entry include_clip_meta (lines ! 3) (lines ! 1)))))"
        using 5 unfolding process_highlight_def lines_def [symmetric] Let_def
        by (auto split: option.splits)
    qed
  qed
qed

text \<open>The returned set grows exactly by the paths of the files an iteration creates.\<close>

lemma process_highlight_created:
  assumes "process_highlight output_directory include_clip_meta chunk (output_files, d) = Inr (output_files', d')"
  shows "dom d \<subseteq> dom d' \<and> output_files' = output_files \<union> path_join output_directory ` (dom d' - dom d)"
proof (cases rule: process_highlight_cases [of output_directory include_clip_meta chunk])
  case skip
  with assms show ?thesis by auto
next
  case raise
  with assms show ?thesis by simp
next
  case (clip name body info)
  with assms show ?thesis
    by (auto split: if_splits option.splits)
qed

lemma process_all_created:
  assumes "process_all output_directory include_clip_meta hs (output_files, d) = (r, output_files', d')"
  shows "dom d \<subseteq> dom d' \<and> output_files' = output_files \<union> path_join output_directory ` (dom d' - dom d)"
  using assms
proof (induction hs arbitrary: output_files d)
  case Nil
  then show ?case by simp
next
  case (Cons h hs)
  show ?case
  proof (cases "process_highlight output_directory include_clip_meta h (output_files, d)")
    case (Inl e)
    with Cons.prems show ?thesis by simp
  next
    case (Inr st)
    obtain o1 d1 where st: "st = (o1, d1)" by (cases st)
    from Inr st Cons.prems
    have rest: "process_all output_directory include_clip_meta hs (o1, d1) = (r, output_files', d')"
      by simp
    from Inr st have step: "dom d \<subseteq> dom d1 \<and> o1 = output_files \<union> path_join output_directory ` (dom d1 - dom d)"
      using process_highlight_created by blast
    from Cons.IH [OF rest]
    have ih: "dom d1 \<subseteq> dom d' \<and> output_files' = o1 \<union> path_join output_directory ` (dom d' - dom d1)" .
    from step ih show ?thesis by blast
  qed
qed

text \<open>Running the loop again on a directory that has only grown since changes nothing.\<close>

lemma grown_refl: "grown d d"
  by (simp add: grown_def)

lemma grown_trans: "grown d d' \<Longrightarrow> grown d' d'' \<Longrightarrow> grown d d''"
  unfolding grown_def by (metis append.assoc)

lemma sublist_entry: "sublist body (entry include_clip_meta body info)"
  unfolding entry_def by (rule prefix_imp_sublist) simp

lemma process_highlight_grown:
  assumes "process_highlight output_directory include_clip_meta chunk (output_files, d) = Inr (output_files', d')"
  shows "grown d d'"
proof (cases rule: process_highlight_cases [of output_directory include_clip_meta chunk])
  case skip
  with assms show ?thesis by (simp add: grown_refl)
next
  case raise
  with assms show ?thesis by simp
next
  case (clip name body info)
  with assms show ?thesis
    by (auto simp: grown_def split: if_splits option.splits)
qed

lemma process_highlight_paths:
  assumes "process_highlight output_directory include_clip_meta chunk (output_files, d) = Inr (output_files', d')"
    and "output_directory \<noteq> []" and "\<forall>p\<in>output_files. CHR ''/'' \<in> set p"
  shows "\<forall>p\<in>output_files'. CHR ''/'' \<in> set p"
proof (cases rule: process_highlight_cases [of output_directory include_clip_meta chunk])
  case skip
  with assms show ?thesis by simp
next
  case raise
  with assms show ?thesis by simp
next
  case (clip name body info)
  with assms show ?thesis
    by (auto simp: path_join_has_slash split: if_splits option.splits)
qed

lemma process_highlight_stable:
  assumes "process_highlight output_directory include_clip_meta chunk (output_files, d) = Inr (output_files', d')"
    and "grown d' d2"
  shows "process_highlight output_directory include_clip_meta chunk (o2, d2) = Inr (o2, d2)"
proof (cases rule: process_highlight_cases [of output_directory include_clip_meta chunk])
  case skip
  then show ?thesis by simp
next
  case raise
  with assms show ?thesis by simp
next
  case (clip name body info)
  from clip(3) have eq: "process_highlight output_directory include_clip_meta chunk (output_files, d) =
        (if name \<notin> output_files \<and> d name = None
         then Inr (insert (path_join output_directory name) output_files,
                   d(name \<mapsto> entry include_clip_meta body info))
         else (case d name of
                 None \<Rightarrow> Inl FileNotFoundError
               | Some current_text \<Rightarrow>
                   Inr (output_files,
                        if sublist body current_text then d
                        else d(name \<mapsto> current_text @ entry include_clip_meta body info))))"
    by blast
  have e1: "sublist body (entry include_clip_meta body info)" by (rule sublist_entry)
  then have e2: "sublist body (c @ entry include_clip_meta body info)" for c
    by (meson sublist_append)
  from eq assms(1) e1 e2 have "\<exists>c'. d' name = Some c' \<and> sublist body c'"
    by (auto split: if_splits option.splits)
  then obtain c' where c': "d' name = Some c'" "sublist body c'" by blast
  from c'(1) assms(2) obtain x where x: "d2 name = Some (c' @ x)"
    by (auto simp: grown_def)
  from c'(2) have "sublist body (c' @ x)"
    by (meson sublist_append)
  with x clip(3) show ?thesis by simp
qed

lemma process_highlight_error:
  assumes "process_highlight output_directory include_clip_meta chunk (output_files, d) = Inl e"
    and "\<forall>p\<in>output_files. CHR ''/'' \<in> set p"
  shows "process_highlight output_directory include_clip_meta chunk st = Inl e"
proof (cases rule: process_highlight_cases [of output_directory include_clip_meta chunk])
  case skip
  with assms show ?thesis by simp
next
  case raise
  with assms show ?thesis by (cases st) simp
next
  case (clip name body info)
  from clip(1) assms(2) have "name \<notin> output_files" by blast
  with clip(3) assms(1) have False
    by (auto split: if_splits option.splits)
  then show ?thesis ..
qed

lemma process_all_rerun:
  assumes "process_all output_directory include_clip_meta hs (output_files, d) = (r, output_files', d')"
    and "output_directory \<noteq> []" and "\<forall>p\<in>output_files. CHR ''/'' \<in> set p"
  shows "grown d d' \<and> (\<forall>o2 d2. grown d' d2 \<longrightarrow>
           process_all output_directory include_clip_meta hs (o2, d2) = (r, o2, d2))"
  using assms
proof (induction hs arbitrary: output_files d)
  case Nil
  then show ?case by (simp add: grown_refl)
next
  case (Cons h hs)
  show ?case
  proof (cases "process_highlight output_directory include_clip_meta h (output_files, d)")
    case (Inl e)
    with Cons.prems(1) have res: "r = Some e" "d' = d" by simp_all
    from Inl Cons.prems(3)
    have "\<And>st. process_highlight output_directory include_clip_meta h st = Inl e"
      by (rule process_highlight_error)
    with res show ?thesis by (simp add: grown_refl)
  next
    case (Inr st)
    obtain o1 d1 where st: "st = (o1, d1)" by (cases st)
    from Inr st Cons.prems(1)
    have rest: "process_all output_directory include_clip_meta hs (o1, d1) = (r, output_files', d')"
      by simp
    from Inr st have step: "process_highlight output_directory include_clip_meta h (output_files, d) = Inr (o1, d1)"
      by simp
    have g1: "grown d d1" using step by (rule process_highlight_grown)
    have p1: "\<forall>p\<in>o1. CHR ''/'' \<in> set p"
      using step Cons.prems(2,3) by (rule process_highlight_paths)
    from Cons.IH [OF rest Cons.prems(2) p1]
    have ih: "grown d1 d'"
      "\<And>o2 d2. grown d' d2 \<Longrightarrow> process_all output_directory include_clip_meta hs (o2, d2) = (r, o2, d2)"
      by blast+
    have "grown d d'" using g1 ih(1) by (rule grown_trans)
    moreover have "process_all output_directory include_clip_meta (h # hs) (o2, d2) = (r, o2, d2)"
      if g: "grown d' d2" for o2 d2
    proof -
      have "grown d1 d2" using ih(1) g by (rule grown_trans)
      with step have "process_highlight output_directory include_clip_meta h (o2, d2) = Inr (o2, d2)"
        by (rule process_highlight_stable)
      with ih(2) [OF g] show ?thesis by simp
    qed
    ultimately show ?thesis by blast
  qed
qed

lemma run_chunks_rerun:
  assumes "output_directory \<noteq> []"
    and "run_chunks output_directory include_clip_meta content d fs = (r, fs')"
  shows "\<exists>d'. fs' = fs\<lparr>dest := Some d'\<rparr>
           \<and> run_chunks output_directory include_clip_meta content d' fs' = ((case r of Inl e \<Rightarrow> Inl e | Inr x \<Rightarrow> Inr {}), fs')"
proof -
  obtain e o1 d1 where
    pa: "process_all output_directory include_clip_meta (str_split content ''=========='') ({}, d) = (e, o1, d1)"
    by (metis prod_cases3)
  from process_all_rerun [OF pa assms(1)]
  have again: "process_all output_directory include_clip_meta (str_split content ''=========='') ({}, d1) = (e, {}, d1)"
    by (simp add: grown_refl)
  from pa assms(2) have fs': "fs' = fs\<lparr>dest := Some d1\<rparr>" and r: "r = (case e of None \<Rightarrow> Inr o1 | Some x \<Rightarrow> Inl x)"
    by (auto simp: run_chunks_def split: option.splits)
  from again fs' r
  have "run_chunks output_directory include_clip_meta content d1 fs' = ((case r of Inl e \<Rightarrow> Inl e | Inr x \<Rightarrow> Inr {}), fs')"
    by (auto simp: run_chunks_def split: option.splits)
  with fs' show ?thesis by blast
qed

text \<open>The filter of repeated highlights, row by row.\<close>

lemma filter_repeated_highlights_single: "filter_repeated_highlights [r] = Inr [r]"
  by (simp add: filter_repeated_highlights_def shift_up_def calculate_similarity_def)

lemma filter_repeated_highlights_Cons:
  "filter_repeated_highlights (r # n # rest) =
     (case calculate_similarity (Some (highlight r)) (Some (highlight n)) of
        Inl e \<Rightarrow> Inl e
      | Inr c \<Rightarrow>
          (case filter_repeated_highlights (n # rest) of
             Inl e \<Rightarrow> Inl e
           | Inr out \<Rightarrow>
               Inr (if round_double (3 / 10) < c \<and> to_seconds (date n) - to_seconds (date r) < 60
                    then out else r # out)))"
  by (simp add: filter_repeated_highlights_def shift_up_def Let_def split: sum.splits)

lemma calculate_similarity_nonempty:
  "a \<noteq> [] \<Longrightarrow> calculate_similarity (Some a) (Some b) = Inr (similarity a b)"
  by (cases a) (simp_all add: calculate_similarity_def similarity_def Let_def)




lemma body_lines_b: "body_lines book_b_text = [''one'']"
  by code_simp







section \<open>Properties of the title sanitizer\<close>

text \<open>
  C9, as the code has it. \<open>re.sub\<close> replaces every match, so a second parenthesized
  group is rewritten to \<open>- <inner text>\<close> exactly as the first is: for text \<open>a\<close> and
  \<open>b\<close> without an opening parenthesis and non-empty groups \<open>x\<close> and \<open>y\<close> without a
  closing parenthesis or a newline, both groups of \<open>a(x)b(y)r\<close> are rewritten, and the
  rest \<open>r\<close> is treated in the same way.
\<close>

theorem sub_paren_rewrites_every_group:
  assumes "CHR ''('' \<notin> set a" "x \<noteq> []" "CHR '')'' \<notin> set x" "NL \<notin> set x"
    and "CHR ''('' \<notin> set b" "y \<noteq> []" "CHR '')'' \<notin> set y" "NL \<notin> set y"
  shows "sub_paren (a @ ''('' @ x @ '')'' @ b @ ''('' @ y @ '')'' @ r)
           = a @ ''- '' @ x @ b @ ''- '' @ y @ sub_paren r"
proof -
  have "sub_paren (a @ CHR ''('' # x @ CHR '')'' # (b @ CHR ''('' # y @ CHR '')'' # r))
          = a @ ''- '' @ x @ sub_paren (b @ CHR ''('' # y @ CHR '')'' # r)"
    using assms(1-4) by (rule sub_paren_group)
  moreover have "sub_paren (b @ CHR ''('' # y @ CHR '')'' # r) = b @ ''- '' @ y @ sub_paren r"
    using assms(5-8) by (rule sub_paren_group)
  ultimately show ?thesis by simp
qed

theorem sub_paren_rewrites_every_group_witness:
  "sub_paren ''A (b) (c)'' = ''A - b - c''"
  using sub_paren_rewrites_every_group [of "''A ''" "''b''" "'' ''" "''c''" "[]"] by simp

text \<open>
  The claim C9 as stated fails on the title \<open>A (b) (c)\<close>: the second group gets the
  prefix \<open>- \<close> too, it is not merely stripped of its parentheses.
\<close>

theorem second_group_rewritten:
  "remove_chars ''A (b) (c)'' [] = ''A - b - c'' \<and> remove_chars ''A (b) (c)'' [] \<noteq> ''A - b c''"
  by (simp add: eval_simps)

section \<open>Properties of \<open>parse_clippings\<close>\<close>

text \<open>
  C10. When the source path is not an existing file, \<open>parse_clippings\<close> raises IOError and
  the file system is as before: the output directory is not created and no book file is
  created or changed.
\<close>

theorem source_not_found_unchanged:
  "source fs = None \<Longrightarrow> parse_clippings output_directory include_clip_meta fs = (Inl IOError, fs)"
  by (simp add: parse_clippings_def)

theorem source_not_found_unchanged_witness:
  "source \<lparr>source = None, dest = None\<rparr> = None
   \<and> parse_clippings ''out'' True \<lparr>source = None, dest = None\<rparr>
       = (Inl IOError, \<lparr>source = None, dest = None\<rparr>)"
  using source_not_found_unchanged [of "\<lparr>source = None, dest = None\<rparr>" "''out''" True]
  by simp

text \<open>
  C7. A clipping whose text is a substring of the book file's current text leaves the
  file as it is, and one that is not a substring is appended: with the existing text
  \<open>Hello world\<close> and a newline, the clipping \<open>Hello world\<close> is dropped and the clipping
  \<open>Hello world!\<close> is appended.
\<close>

theorem exact_containment:
  "(tl (str_split chunk [NL]) = lines \<and> 4 \<le> length lines \<and> lines ! 3 \<noteq> [] \<and> lines ! 0 \<noteq> []
      \<and> d (remove_chars (lines ! 0) output_directory @ ''.txt'') = Some current_text
    \<longrightarrow> process_highlight output_directory include_clip_meta chunk (output_files, d) =
          Inr (output_files,
               if sublist (lines ! 3) current_text then d
               else d(remove_chars (lines ! 0) output_directory @ ''.txt'' \<mapsto>
                        current_text @ entry include_clip_meta (lines ! 3) (lines ! 1))))
   \<and> process_highlight ''out'' False ''\<newline>Book\<newline>meta\<newline>\<newline>Hello world\<newline>''
         ({}, [''Book.txt'' \<mapsto> ''Hello world\<newline>''])
       = Inr ({}, [''Book.txt'' \<mapsto> ''Hello world\<newline>''])
   \<and> process_highlight ''out'' False ''\<newline>Book\<newline>meta\<newline>\<newline>Hello world!\<newline>''
         ({}, [''Book.txt'' \<mapsto> ''Hello world\<newline>''])
       = Inr ({}, [''Book.txt'' \<mapsto> ''Hello world\<newline>Hello world!\<newline>\<newline>...\<newline>\<newline>''])"
proof (intro conjI impI)
  assume h: "tl (str_split chunk [NL]) = lines \<and> 4 \<le> length lines \<and> lines ! 3 \<noteq> [] \<and> lines ! 0 \<noteq> []
      \<and> d (remove_chars (lines ! 0) output_directory @ ''.txt'') = Some current_text"
  then show "process_highlight output_directory include_clip_meta chunk (output_files, d) =
          Inr (output_files,
               if sublist (lines ! 3) current_text then d
               else d(remove_chars (lines ! 0) output_directory @ ''.txt'' \<mapsto>
                        current_text @ entry include_clip_meta (lines ! 3) (lines ! 1)))"
    by (simp add: process_highlight_clipping [of chunk lines])
next
  show "process_highlight ''out'' False ''\<newline>Book\<newline>meta\<newline>\<newline>Hello world\<newline>''
         ({}, [''Book.txt'' \<mapsto> ''Hello world\<newline>''])
       = Inr ({}, [''Book.txt'' \<mapsto> ''Hello world\<newline>''])"
    by (simp add: eval_simps)
next
  show "process_highlight ''out'' False ''\<newline>Book\<newline>meta\<newline>\<newline>Hello world!\<newline>''
         ({}, [''Book.txt'' \<mapsto> ''Hello world\<newline>''])
       = Inr ({}, [''Book.txt'' \<mapsto> ''Hello world\<newline>Hello world!\<newline>\<newline>...\<newline>\<newline>''])"
    by (simp add: eval_simps)
qed


theorem exact_containment_witness:
  "process_highlight ''out'' True ''\<newline>Book\<newline>meta\<newline>\<newline>world\<newline>''
     ({}, [''Book.txt'' \<mapsto> ''Hello world\<newline>''])
   = Inr ({}, [''Book.txt'' \<mapsto> ''Hello world\<newline>''])"
  using exact_containment [of "''\<newline>Book\<newline>meta\<newline>\<newline>world\<newline>''"
      "[''Book'', ''meta'', [], ''world'', []]" "[''Book.txt'' \<mapsto> ''Hello world\<newline>'']" "''out''"
      "''Hello world\<newline>''" True "{}"]
  by (simp add: str_split_def remove_chars_def str_replace_def paren_group_def allowed_def
      trim_nonword_def slice_to_def is_word_def is_space_def is_digit_def is_ascii_alpha_def
      sublist_code)

text \<open>
  C5, where the code departs from it. A chunk that leaves exactly three lines after its
  first line is dropped passes the test \<open>len(lines) < 3\<close>, and \<open>lines[3]\<close> then raises
  IndexError: the run ends there, after the output directory has been created.
\<close>

theorem three_remaining_lines_raise:
  "parse_clippings ''out'' False
     \<lparr>source = Some ''==========\<newline>Book\<newline>- Your Highlight on page 1 | Added on Friday, 5 March 2021 14:32:10\<newline>'',
      dest = None\<rparr>
   = (Inl IndexError,
      \<lparr>source = Some ''==========\<newline>Book\<newline>- Your Highlight on page 1 | Added on Friday, 5 March 2021 14:32:10\<newline>'',
       dest = Some Map.empty\<rparr>)"
  by (simp add: parse_clippings_def run_chunks_def process_highlight_def str_split_def)

text \<open>
  C6, as the code has it. \<open>output_files.add(path)\<close> stands only in the branch that
  creates a file, so a run that returns hands back exactly the paths of the files it
  created: the files of the output directory afterwards that were not there before.
  A file that existed before the run is not in the returned set, appended to or not.
\<close>

theorem returned_set_is_created_files:
  assumes "parse_clippings output_directory include_clip_meta fs = (Inr output_files, fs')"
  shows "\<exists>d'. dest fs' = Some d'
          \<and> output_files = path_join output_directory `
               (dom d' - dom (case dest fs of None \<Rightarrow> Map.empty | Some d \<Rightarrow> d))"
proof -
  from assms obtain txt0 where src: "source fs = Some txt0"
    by (auto simp: parse_clippings_def split: option.splits)
  from assms src have nonempty: "output_directory \<noteq> []"
    by (auto simp: parse_clippings_def split: option.splits if_splits)
  define d0 where "d0 = (case dest fs of None \<Rightarrow> Map.empty | Some d \<Rightarrow> d)"
  from assms src nonempty
  have run: "run_chunks output_directory include_clip_meta txt0 d0 fs = (Inr output_files, fs')"
    by (auto simp: parse_clippings_def d0_def split: option.splits)
  obtain r o1 d1 where
    pa: "process_all output_directory include_clip_meta (str_split txt0 ''=========='') ({}, d0) = (r, o1, d1)"
    by (metis prod_cases3)
  from run pa have "r = None" "o1 = output_files" "fs' = fs\<lparr>dest := Some d1\<rparr>"
    by (auto simp: run_chunks_def split: option.splits)
  moreover from process_all_created [OF pa]
  have "o1 = path_join output_directory ` (dom d1 - dom d0)" by simp
  ultimately show ?thesis by (simp add: d0_def)
qed


theorem returned_set_is_created_files_witness:
  "\<exists>d'. dest \<lparr>source = Some ''==========\<newline>Book\<newline>meta\<newline>\<newline>body\<newline>'',
                  dest = Some [''Book.txt'' \<mapsto> ''body\<newline>\<newline>...\<newline>\<newline>'']\<rparr> = Some d'
      \<and> {''out/Book.txt''} = path_join ''out'' ` (dom d' - dom Map.empty)"
  using returned_set_is_created_files [of "''out''" False
      "\<lparr>source = Some ''==========\<newline>Book\<newline>meta\<newline>\<newline>body\<newline>'', dest = None\<rparr>"
      "{''out/Book.txt''}"
      "\<lparr>source = Some ''==========\<newline>Book\<newline>meta\<newline>\<newline>body\<newline>'',
        dest = Some [''Book.txt'' \<mapsto> ''body\<newline>\<newline>...\<newline>\<newline>'']\<rparr>"]
  by (simp add: parse_clippings_def run_chunks_def eval_simps)

text \<open>
  The claim C6 as stated fails when the book file exists before the run: the clipping is
  appended to \<open>Book.txt\<close> and the returned set is empty.
\<close>

theorem appended_file_not_returned:
  "parse_clippings ''out'' False
     \<lparr>source = Some ''==========\<newline>Book\<newline>meta\<newline>\<newline>new body\<newline>'',
      dest = Some [''Book.txt'' \<mapsto> ''old\<newline>'']\<rparr>
   = (Inr {},
      \<lparr>source = Some ''==========\<newline>Book\<newline>meta\<newline>\<newline>new body\<newline>'',
       dest = Some [''Book.txt'' \<mapsto> ''old\<newline>new body\<newline>\<newline>...\<newline>\<newline>'']\<rparr>)"
  by (simp add: parse_clippings_def run_chunks_def eval_simps)

text \<open>
  C1. Running \<open>parse_clippings\<close> a second time, on the file system the first run left
  and with the same arguments, changes nothing: the file system after the second run is the
  one after the first, so every book file has the text it had. This holds whether the runs
  return or raise.
\<close>

theorem parse_clippings_idempotent:
  "snd (parse_clippings output_directory include_clip_meta
          (snd (parse_clippings output_directory include_clip_meta fs)))
     = snd (parse_clippings output_directory include_clip_meta fs)"
proof (cases "source fs")
  case None
  then show ?thesis by (simp add: parse_clippings_def)
next
  case (Some content)
  show ?thesis
  proof (cases "output_directory = []")
    case True
    with Some show ?thesis by (simp add: parse_clippings_def)
  next
    case False
    define d where "d = (case dest fs of None \<Rightarrow> Map.empty | Some x \<Rightarrow> x)"
    from Some False
    have first: "parse_clippings output_directory include_clip_meta fs
                   = run_chunks output_directory include_clip_meta content d fs"
      by (simp add: parse_clippings_def d_def split: option.splits)
    obtain r fs' where run: "run_chunks output_directory include_clip_meta content d fs = (r, fs')"
      by (cases "run_chunks output_directory include_clip_meta content d fs")
    from run_chunks_rerun [OF False run] obtain d' where
      d': "fs' = fs\<lparr>dest := Some d'\<rparr>"
        "run_chunks output_directory include_clip_meta content d' fs' = ((case r of Inl e \<Rightarrow> Inl e | Inr x \<Rightarrow> Inr {}), fs')"
      by blast
    from d'(1) Some False
    have "parse_clippings output_directory include_clip_meta fs'
            = run_chunks output_directory include_clip_meta content d' fs'"
      by (simp add: parse_clippings_def)
    with d'(2) first run show ?thesis by simp
  qed
qed


theorem parse_clippings_idempotent_witness:
  "snd (parse_clippings ''out'' True
          (snd (parse_clippings ''out'' True
                  \<lparr>source = Some ''==========\<newline>Book\<newline>meta\<newline>\<newline>body\<newline>'', dest = None\<rparr>)))
     = snd (parse_clippings ''out'' True
              \<lparr>source = Some ''==========\<newline>Book\<newline>meta\<newline>\<newline>body\<newline>'', dest = None\<rparr>)"
  by (rule parse_clippings_idempotent)

section \<open>Properties of the rendering helpers\<close>

text \<open>
  C3, as the code has it. \<open>extract_date_and_time\<close> unpacks the text after
  \<open>Added on \<close>, split on a comma and a blank, into exactly two pieces, the day of the
  week and the date: on the line \<open>Your Highlight on page 12 | Added on Friday, 5 March
  2021 14:32:10\<close> it returns 2021-03-05 14:32:10, which is also what the format gives on
  \<open>5 March 2021 14:32:10\<close> alone.
\<close>

theorem extract_date_and_time_weekday:
  "extract_date_and_time ''Your Highlight on page 12 | Added on Friday, 5 March 2021 14:32:10''
     = Inr \<lparr>year = 2021, month = 3, day = 5, hour = 14, minute = 32, second = 10\<rparr>
   \<and> strptime ''5 March 2021 14:32:10''
     = Inr \<lparr>year = 2021, month = 3, day = 5, hour = 14, minute = 32, second = 10\<rparr>"
  by code_simp

text \<open>
  The claim C3 as stated fails: on the line without the day of the week the second split
  has one piece only, and the unpacking raises ValueError.
\<close>

theorem extract_date_and_time_no_weekday:
  "extract_date_and_time ''Your Highlight on page 12 | Added on 5 March 2021 14:32:10''
     = Inl ValueError"
  by code_simp

text \<open>
  C8, as the code has it. On a table with rows and without empty highlights the filter is one pass over
  the adjacent pairs: a row is dropped in favour of the next one exactly when their
  similarity, computed in double precision as \<open>1 - distance / longest\<close>, is greater than
  the double \<open>0.3\<close> and the next date is less than 60 seconds after the row's date. The
  last row has no next row and stays.
\<close>

theorem filter_is_adjacent_pass:
  "df_highlights \<noteq> [] \<Longrightarrow> \<forall>r\<in>set df_highlights. highlight r \<noteq> [] \<Longrightarrow>
     filter_repeated_highlights df_highlights = Inr (adjacent_pass df_highlights)"
proof (induction df_highlights rule: adjacent_pass.induct)
  case 1
  then show ?case by simp
next
  case (2 r)
  show ?case by (simp add: filter_repeated_highlights_single)
next
  case (3 r n rest)
  then have "filter_repeated_highlights (n # rest) = Inr (adjacent_pass (n # rest))"
    by (cases "redundant r n") simp_all
  moreover from 3 have "calculate_similarity (Some (highlight r)) (Some (highlight n))
      = Inr (similarity (highlight r) (highlight n))"
    by (simp add: calculate_similarity_nonempty)
  ultimately show ?case
    by (simp add: filter_repeated_highlights_Cons redundant_def)
qed

text \<open>Two similar highlights 90 seconds apart both stay.\<close>

theorem filter_is_adjacent_pass_witness:
  "filter_repeated_highlights
     [\<lparr>highlight = ''The quick brown fox'', meta = ''m1'',
        date = \<lparr>year = 2021, month = 3, day = 5, hour = 14, minute = 32, second = 10\<rparr>\<rparr>,
      \<lparr>highlight = ''The quick brown fox.'', meta = ''m2'',
        date = \<lparr>year = 2021, month = 3, day = 5, hour = 14, minute = 33, second = 40\<rparr>\<rparr>]
   = Inr
     [\<lparr>highlight = ''The quick brown fox'', meta = ''m1'',
        date = \<lparr>year = 2021, month = 3, day = 5, hour = 14, minute = 32, second = 10\<rparr>\<rparr>,
      \<lparr>highlight = ''The quick brown fox.'', meta = ''m2'',
        date = \<lparr>year = 2021, month = 3, day = 5, hour = 14, minute = 33, second = 40\<rparr>\<rparr>]"
proof -
  let ?df = "[\<lparr>highlight = ''The quick brown fox'', meta = ''m1'',
        date = \<lparr>year = 2021, month = 3, day = 5, hour = 14, minute = 32, second = 10\<rparr>\<rparr>,
      \<lparr>highlight = ''The quick brown fox.'', meta = ''m2'',
        date = \<lparr>year = 2021, month = 3, day = 5, hour = 14, minute = 33, second = 40\<rparr>\<rparr>]"
  have rows: "?df \<noteq> []" by simp
  have nonempty: "\<forall>r\<in>set ?df. highlight r \<noteq> []" by simp
  have pass: "adjacent_pass ?df = ?df" by code_simp
  show ?thesis using filter_is_adjacent_pass [OF rows nonempty] pass by simp
qed

text \<open>
  The claim C8 as stated fails in two places. The highlights \<open>aaaaaaaaaa\<close> and \<open>aaa\<close>
  are at distance 7 of 10, so that their similarity is 0.30 and not greater; yet in
  double precision \<open>1 - 7 / 10\<close> is \<open>0.30000000000000004\<close>, and 5 seconds apart the first is
  dropped. And for two empty texts \<open>calculate_similarity\<close> does not return 0: the division
  raises ZeroDivisionError.
\<close>

theorem similarity_boundary_and_empty:
  "filter_repeated_highlights
     [\<lparr>highlight = ''aaaaaaaaaa'', meta = ''m1'',
        date = \<lparr>year = 2021, month = 3, day = 5, hour = 14, minute = 32, second = 10\<rparr>\<rparr>,
      \<lparr>highlight = ''aaa'', meta = ''m2'',
        date = \<lparr>year = 2021, month = 3, day = 5, hour = 14, minute = 32, second = 15\<rparr>\<rparr>]
   = Inr
     [\<lparr>highlight = ''aaa'', meta = ''m2'',
        date = \<lparr>year = 2021, month = 3, day = 5, hour = 14, minute = 32, second = 15\<rparr>\<rparr>]
   \<and> (1 - of_nat (levenshtein ''aaaaaaaaaa'' ''aaa'')
            / of_nat (max (length ''aaaaaaaaaa'') (length ''aaa'')) :: rat) = 3 / 10
   \<and> calculate_similarity (Some []) (Some []) = Inl ZeroDivisionError"
  by code_simp




section \<open>Persistence and rendering together\<close>




end
